theory Spec2Isabelle
  imports Complex_Main "HOL-Library.Sublist"
begin

section \<open>Python values that the loader handles\<close>

text \<open>
  \<^verbatim>\<open>json.loads\<close> returns a Python value built from \<^verbatim>\<open>None\<close>, booleans, numbers, strings,
  lists and dicts. A dict is an association list in insertion order. Strings are lists of
  bytes: a character outside ASCII is written as its UTF-8 bytes. A Python float is carried
  as the rational it denotes; no function below inspects a number.
\<close>

datatype json =
    JNull
  | JBool bool
  | JInt int
  | JFloat rat
  | JStr string
  | JArr "json list"
  | JObj "(string \<times> json) list"

text \<open>
  The exceptions the loader can meet. \<^verbatim>\<open>ResourceNotFoundError\<close> is the one class
  \<^verbatim>\<open>load\<close> names; \<^verbatim>\<open>ValueError\<close> is raised by the validator (and by a failing
  \<^verbatim>\<open>json.loads\<close>, whose \<^verbatim>\<open>JSONDecodeError\<close> is a subclass); \<^verbatim>\<open>OtherException\<close> stands for every
  other subclass of \<^verbatim>\<open>Exception\<close>. Each carries its message, which \<^verbatim>\<open>str(e)\<close> returns; the
  messages of the errors that the interpreter raises (\<^verbatim>\<open>TypeError\<close>, \<^verbatim>\<open>KeyError\<close>) vary with its
  version, and no statement below depends on them. Exceptions outside \<^verbatim>\<open>Exception\<close>
  (\<^verbatim>\<open>KeyboardInterrupt\<close>, \<^verbatim>\<open>SystemExit\<close>) are not modelled.
\<close>

datatype exn =
    ResourceNotFoundError string
  | ValueError string
  | TypeError string
  | KeyError string
  | OtherException string

fun str_exn :: "exn \<Rightarrow> string" where
  "str_exn (ResourceNotFoundError m) = m"
| "str_exn (ValueError m) = m"
| "str_exn (TypeError m) = m"
| "str_exn (KeyError m) = m"
| "str_exn (OtherException m) = m"

fun type_name :: "json \<Rightarrow> string" where
  "type_name JNull = ''NoneType''"
| "type_name (JBool _) = ''bool''"
| "type_name (JInt _) = ''int''"
| "type_name (JFloat _) = ''float''"
| "type_name (JStr _) = ''str''"
| "type_name (JArr _) = ''list''"
| "type_name (JObj _) = ''dict''"

text \<open>
  \<^verbatim>\<open>field in ontology\<close> for a string \<^verbatim>\<open>field\<close>: key membership in a dict, element membership
  in a list, substring test in a string, and \<^verbatim>\<open>TypeError\<close> on a value that is not a
  container.
\<close>

fun py_in :: "string \<Rightarrow> json \<Rightarrow> exn + bool" where
  "py_in field (JObj kvs) = Inr (field \<in> set (map fst kvs))"
| "py_in field (JArr xs) = Inr (JStr field \<in> set xs)"
| "py_in field (JStr s) = Inr (sublist field s)"
| "py_in field v =
     Inl (TypeError
            (''argument of type '' @ [CHR 0x27] @ type_name v @ [CHR 0x27] @ '' is not iterable''))"

text \<open>
  \<^verbatim>\<open>ontology[key]\<close> for a string key, as \<^verbatim>\<open>function_app.verify\<close> reads the loaded ontology:
  the value under the key in a dict, \<^verbatim>\<open>KeyError\<close> without the key, \<^verbatim>\<open>TypeError\<close> on a value that
  is not a dict.
\<close>

fun subscript :: "json \<Rightarrow> string \<Rightarrow> exn + json" where
  "subscript (JObj kvs) key =
     (case map_of kvs key of
        None \<Rightarrow> Inl (KeyError ([CHR 0x27] @ key @ [CHR 0x27]))
      | Some v \<Rightarrow> Inr v)"
| "subscript v key =
     Inl (TypeError ([CHR 0x27] @ type_name v @ [CHR 0x27] @ '' object is not subscriptable''))"


section \<open>\<^verbatim>\<open>OntologyLoader._validate_ontology\<close>\<close>

definition required_fields :: "string list" where
  "required_fields = [''name'', ''version'', ''constraints'', ''extractors'']"

text \<open>
  The \<^verbatim>\<open>for field in required_fields\<close> loop: the first field that is not in the ontology
  raises \<^verbatim>\<open>ValueError(f"Invalid ontology: missing {field}")\<close>.
\<close>

fun check_fields :: "string list \<Rightarrow> json \<Rightarrow> exn + unit" where
  "check_fields [] ontology = Inr ()"
| "check_fields (field # rest) ontology =
     (case py_in field ontology of
        Inl e \<Rightarrow> Inl e
      | Inr present \<Rightarrow>
          if present then check_fields rest ontology
          else Inl (ValueError (''Invalid ontology: missing '' @ field)))"

definition validate_ontology :: "json \<Rightarrow> exn + json" where
  "validate_ontology ontology =
     (case check_fields required_fields ontology of
        Inl e \<Rightarrow> Inl e
      | Inr u \<Rightarrow> Inr ontology)"

text \<open>The required fields a dict lacks, in the order the validator checks them.\<close>

definition missing_fields :: "(string \<times> json) list \<Rightarrow> string list" where
  "missing_fields kvs = filter (\<lambda>field. field \<notin> set (map fst kvs)) required_fields"


section \<open>\<^verbatim>\<open>OntologyLoader._get_default_ontology\<close>\<close>

text \<open>The non-ASCII characters of the source's string literals, in UTF-8, and the backslash.\<close>

definition u_le :: string where "u_le = [CHR 0xE2, CHR 0x89, CHR 0xA4]"
definition u_ge :: string where "u_ge = [CHR 0xE2, CHR 0x89, CHR 0xA5]"
definition u_or :: string where "u_or = [CHR 0xE2, CHR 0x88, CHR 0xA8]"
definition u_and :: string where "u_and = [CHR 0xE2, CHR 0x88, CHR 0xA7]"
definition u_not :: string where "u_not = [CHR 0xC2, CHR 0xAC]"
definition u_implies :: string where "u_implies = [CHR 0xE2, CHR 0x86, CHR 0x92]"
definition u_section :: string where "u_section = [CHR 0xC2, CHR 0xA7]"
definition bsl :: string where "bsl = [CHR 0x5C]"

definition constraint_ATR_QM_DTI :: json where
  "constraint_ATR_QM_DTI = JObj
     [(''id'', JStr ''ATR_QM_DTI''),
      (''category'', JStr ''ATR/QM''),
      (''description'', JStr ''Debt-to-income ratio requirements''),
      (''formula_readable'',
         JStr (''(dti '' @ u_le @ '' 43) '' @ u_or @ '' (compensating_factors '' @ u_ge @ '' 2)'')),
      (''variables'', JArr
         [JObj [(''name'', JStr ''dti''), (''type'', JStr ''real'')],
          JObj [(''name'', JStr ''compensating_factors''), (''type'', JStr ''int'')]]),
      (''error_message'', JStr ''DTI exceeds 43% without sufficient compensating factors''),
      (''citation'', JStr (''12 CFR '' @ u_section @ '' 1026.43(c)''))]"

definition constraint_HOEPA_HIGH_COST :: json where
  "constraint_HOEPA_HIGH_COST = JObj
     [(''id'', JStr ''HOEPA_HIGH_COST''),
      (''category'', JStr ''HOEPA''),
      (''description'', JStr ''High-cost mortgage counseling requirement''),
      (''formula_readable'',
         JStr (''(fee_percentage < 8) '' @ u_or @ '' counseling_disclosed'')),
      (''variables'', JArr
         [JObj [(''name'', JStr ''fee_percentage''), (''type'', JStr ''real'')],
          JObj [(''name'', JStr ''counseling_disclosed''), (''type'', JStr ''bool'')]]),
      (''error_message'', JStr ''HOEPA triggered - counseling disclosure required''),
      (''citation'', JStr (''12 CFR '' @ u_section @ '' 1026.32''))]"

definition constraint_UDAAP_NO_GUARANTEES :: json where
  "constraint_UDAAP_NO_GUARANTEES = JObj
     [(''id'', JStr ''UDAAP_NO_GUARANTEES''),
      (''category'', JStr ''UDAAP''),
      (''description'', JStr ''Prohibition on guarantee language''),
      (''formula_readable'',
         JStr (u_not @ ''(has_guarantee '' @ u_and @ '' has_approval)'')),
      (''variables'', JArr
         [JObj [(''name'', JStr ''has_guarantee''), (''type'', JStr ''bool'')],
          JObj [(''name'', JStr ''has_approval''), (''type'', JStr ''bool'')]]),
      (''error_message'', JStr ''Cannot guarantee approval''),
      (''citation'', JStr (''12 CFR '' @ u_section @ '' 1036.3''))]"

definition constraint_HPML_ESCROW :: json where
  "constraint_HPML_ESCROW = JObj
     [(''id'', JStr ''HPML_ESCROW''),
      (''category'', JStr ''Escrow''),
      (''description'', JStr ''Escrow requirements based on FICO''),
      (''formula_readable'',
         JStr (''(credit_score '' @ u_ge @ '' 620) '' @ u_or @ '' '' @ u_not @ ''escrow_waived'')),
      (''variables'', JArr
         [JObj [(''name'', JStr ''credit_score''), (''type'', JStr ''int'')],
          JObj [(''name'', JStr ''escrow_waived''), (''type'', JStr ''bool'')]]),
      (''error_message'', JStr ''Cannot waive escrow with FICO < 620''),
      (''citation'', JStr (''12 CFR '' @ u_section @ '' 1026.35(b)''))]"

definition constraint_REG_B_ADVERSE :: json where
  "constraint_REG_B_ADVERSE = JObj
     [(''id'', JStr ''REG_B_ADVERSE''),
      (''category'', JStr ''Regulation B''),
      (''description'', JStr ''Adverse action disclosure requirements''),
      (''formula_readable'',
         JStr (''is_denial '' @ u_implies @ '' has_specific_reason'')),
      (''variables'', JArr
         [JObj [(''name'', JStr ''is_denial''), (''type'', JStr ''bool'')],
          JObj [(''name'', JStr ''has_specific_reason''), (''type'', JStr ''bool'')]]),
      (''error_message'', JStr ''Must disclose specific denial reason''),
      (''citation'', JStr (''12 CFR '' @ u_section @ '' 1002.9''))]"

definition default_constraints :: "json list" where
  "default_constraints =
     [constraint_ATR_QM_DTI, constraint_HOEPA_HIGH_COST, constraint_UDAAP_NO_GUARANTEES,
      constraint_HPML_ESCROW, constraint_REG_B_ADVERSE]"

definition default_extractors :: "(string \<times> json) list" where
  "default_extractors =
     [(''dti'', JObj
         [(''type'', JStr ''float''),
          (''pattern'',
             JStr (''dti[:'' @ bsl @ ''s~]*('' @ bsl @ ''d+(?:'' @ bsl @ ''.'' @ bsl @ ''d+)?)''))]),
      (''credit_score'', JObj
         [(''type'', JStr ''int''),
          (''pattern'',
             JStr (''(?:fico|credit score)[:'' @ bsl @ ''s]*('' @ bsl @ ''d{3})''))]),
      (''fees'', JObj
         [(''type'', JStr ''money''),
          (''pattern'',
             JStr (bsl @ ''$?(['' @ bsl @ ''d,]+)k?'' @ bsl @ ''s*(?:fees?|costs?)''))]),
      (''loan_amount'', JObj
         [(''type'', JStr ''money''),
          (''pattern'',
             JStr (bsl @ ''$?(['' @ bsl @ ''d,]+)k?'' @ bsl @ ''s*(?:loan|mortgage)''))]),
      (''has_guarantee'', JObj
         [(''type'', JStr ''boolean''),
          (''keywords'', JArr [JStr ''guaranteed'', JStr ''100%'', JStr ''definitely''])]),
      (''has_approval'', JObj
         [(''type'', JStr ''boolean''),
          (''keywords'', JArr [JStr ''approved'', JStr ''approve''])]),
      (''counseling_disclosed'', JObj
         [(''type'', JStr ''boolean''),
          (''keywords'', JArr [JStr ''counseling''])]),
      (''escrow_waived'', JObj
         [(''type'', JStr ''boolean''),
          (''keywords'', JArr [JStr ''escrow waived'', JStr ''waive escrow'', JStr ''skip escrow''])]),
      (''is_denial'', JObj
         [(''type'', JStr ''boolean''),
          (''keywords'', JArr [JStr ''denied'', JStr ''cannot approve''])]),
      (''has_specific_reason'', JObj
         [(''type'', JStr ''boolean''),
          (''keywords'',
             JArr [JStr ''credit'', JStr ''income'', JStr ''dti'', JStr ''debt'', JStr ''score''])])]"

text \<open>
  The method takes \<^verbatim>\<open>self\<close> and reads nothing from it, so the returned dict is a constant.
\<close>

definition get_default_ontology :: json where
  "get_default_ontology = JObj
     [(''name'', JStr ''mortgage-compliance-v1''),
      (''version'', JStr ''1.0.0''),
      (''description'', JStr ''U.S. Mortgage Compliance - Core constraints''),
      (''constraints'', JArr default_constraints),
      (''extractors'', JObj default_extractors)]"


subsection \<open>Reading an ontology dict\<close>

text \<open>
  The names a constraint declares under \<^verbatim>\<open>variables\<close> (the variables of its formula), and
  the keys of the \<^verbatim>\<open>extractors\<close> dict.
\<close>

fun variable_name :: "json \<Rightarrow> string list" where
  "variable_name (JObj kvs) = (case map_of kvs ''name'' of Some (JStr n) \<Rightarrow> [n] | _ \<Rightarrow> [])"
| "variable_name v = []"

fun constraint_variables :: "json \<Rightarrow> string list" where
  "constraint_variables (JObj kvs) =
     (case map_of kvs ''variables'' of
        Some (JArr vs) \<Rightarrow> concat (map variable_name vs)
      | _ \<Rightarrow> [])"
| "constraint_variables v = []"

definition referenced_variables :: "json \<Rightarrow> string list" where
  "referenced_variables ontology =
     (case subscript ontology ''constraints'' of
        Inr (JArr cs) \<Rightarrow> concat (map constraint_variables cs)
      | _ \<Rightarrow> [])"

definition extractor_keys :: "json \<Rightarrow> string list" where
  "extractor_keys ontology =
     (case subscript ontology ''extractors'' of
        Inr (JObj es) \<Rightarrow> map fst es
      | _ \<Rightarrow> [])"


section \<open>\<^verbatim>\<open>OntologyLoader.__init__\<close> and \<^verbatim>\<open>OntologyLoader.load\<close>\<close>

text \<open>
  What lies outside the loader is a parameter: the process environment \<open>environ\<close>,
  \<^verbatim>\<open>BlobServiceClient.from_connection_string\<close> (which may raise), the storage account read
  through a client (\<open>download\<close>: container, blob name, then the bytes of the blob or the
  exception that one of \<^verbatim>\<open>get_container_client\<close>, \<^verbatim>\<open>get_blob_client\<close>, \<^verbatim>\<open>download_blob\<close>,
  \<^verbatim>\<open>readall\<close> raises) and \<^verbatim>\<open>json.loads\<close> (\<open>loads\<close>). Calls of \<^verbatim>\<open>logging\<close> are collected as
  a list of records, in order.
\<close>

datatype level = INFO | WARNING

type_synonym log = "(level \<times> string) list"

datatype client = BlobServiceClient string

record ontology_loader =
  container_name :: string
  connection_string :: string
  blob_service_client :: "client option"

text \<open>\<^verbatim>\<open>os.environ.get(key, default)\<close>.\<close>

definition environ_get :: "(string \<rightharpoonup> string) \<Rightarrow> string \<Rightarrow> string \<Rightarrow> string" where
  "environ_get environ key dflt = (case environ key of None \<Rightarrow> dflt | Some v \<Rightarrow> v)"

text \<open>\<^verbatim>\<open>x or y\<close> for an argument \<open>x\<close> that is \<^verbatim>\<open>None\<close> or a string: \<open>x\<close> when it is truthy.\<close>

definition py_or :: "string option \<Rightarrow> string \<Rightarrow> string" where
  "py_or x y = (case x of None \<Rightarrow> y | Some s \<Rightarrow> if s = [] then y else s)"

definition init ::
  "(string \<rightharpoonup> string) \<Rightarrow> (string \<Rightarrow> exn + client) \<Rightarrow> string option \<Rightarrow> string option
     \<Rightarrow> ontology_loader \<times> log" where
  "init environ from_connection_string container_name_arg connection_string_arg =
     (let cn = py_or container_name_arg (environ_get environ ''ONTOLOGY_CONTAINER'' ''ontologies'');
          cs = py_or connection_string_arg
                 (environ_get environ ''AZURE_STORAGE_CONNECTION_STRING'' [])
      in if cs \<noteq> [] then
           (case from_connection_string cs of
              Inr c \<Rightarrow>
                (\<lparr>container_name = cn, connection_string = cs, blob_service_client = Some c\<rparr>, [])
            | Inl e \<Rightarrow>
                (\<lparr>container_name = cn, connection_string = cs, blob_service_client = None\<rparr>,
                 [(WARNING, ''Failed to initialize blob client: '' @ str_exn e)]))
         else
           (\<lparr>container_name = cn, connection_string = cs, blob_service_client = None\<rparr>, []))"

text \<open>
  The \<^verbatim>\<open>try\<close> block of \<^verbatim>\<open>load\<close>: \<open>Inl e\<close> when a statement of the block raises \<open>e\<close>,
  \<open>Inr (Some v)\<close> when the block returns \<open>v\<close>, \<open>Inr None\<close> when it falls through because
  no client is set (a client object is truthy).
\<close>

definition try_block ::
  "(string \<Rightarrow> exn + json) \<Rightarrow> (client \<Rightarrow> string \<Rightarrow> string \<Rightarrow> exn + string)
     \<Rightarrow> ontology_loader \<Rightarrow> string \<Rightarrow> exn + json option" where
  "try_block loads download self ontology_name =
     (case blob_service_client self of
        None \<Rightarrow> Inr None
      | Some c \<Rightarrow>
          (case download c (container_name self) (ontology_name @ ''.json'') of
             Inl e \<Rightarrow> Inl e
           | Inr bytes \<Rightarrow>
               (case loads bytes of
                  Inl e \<Rightarrow> Inl e
                | Inr ontology \<Rightarrow>
                    (case validate_ontology ontology of
                       Inl e \<Rightarrow> Inl e
                     | Inr v \<Rightarrow> Inr (Some v)))))"

text \<open>
  The function that \<^verbatim>\<open>lru_cache\<close> wraps: the \<^verbatim>\<open>try\<close> block, its two handlers, and the
  statements after them. The result is a sum so that an exception leaving the function
  would be a value \<open>Inl\<close>.
\<close>

fun handlers :: "string \<Rightarrow> exn + json option \<Rightarrow> (exn + json) \<times> log" where
  "handlers ontology_name (Inr (Some v)) = (Inr v, [])"
| "handlers ontology_name (Inr None) =
     (Inr get_default_ontology,
      [(INFO, ''Using default ontology for '' @ ontology_name)])"
| "handlers ontology_name (Inl (ResourceNotFoundError m)) =
     (Inr get_default_ontology,
      [(INFO, ''Ontology '' @ ontology_name @ '' not found in blob storage''),
       (INFO, ''Using default ontology for '' @ ontology_name)])"
| "handlers ontology_name (Inl e) =
     (Inr get_default_ontology,
      [(WARNING, ''Failed to load from Blob Storage: '' @ str_exn e),
       (INFO, ''Using default ontology for '' @ ontology_name)])"

definition load_wrapped ::
  "(string \<Rightarrow> exn + json) \<Rightarrow> (client \<Rightarrow> string \<Rightarrow> string \<Rightarrow> exn + string)
     \<Rightarrow> ontology_loader \<Rightarrow> string \<Rightarrow> (exn + json) \<times> log" where
  "load_wrapped loads download self ontology_name =
     handlers ontology_name (try_block loads download self ontology_name)"

text \<open>
  \<^verbatim>\<open>@lru_cache(maxsize=10)\<close>: the cache of one loader, keyed by the ontology name, most
  recently used first. A hit returns the cached value and runs nothing; a miss runs the
  wrapped function, stores a returned value and drops the least recently used entry beyond
  ten; a raised exception is not stored.
\<close>

type_synonym cache = "(string \<times> json) list"

definition load ::
  "(string \<Rightarrow> exn + json) \<Rightarrow> (client \<Rightarrow> string \<Rightarrow> string \<Rightarrow> exn + string)
     \<Rightarrow> ontology_loader \<Rightarrow> string \<Rightarrow> cache \<Rightarrow> (exn + json) \<times> log \<times> cache" where
  "load loads download self ontology_name cache =
     (case map_of cache ontology_name of
        Some v \<Rightarrow>
          (Inr v, [], (ontology_name, v) # filter (\<lambda>kv. fst kv \<noteq> ontology_name) cache)
      | None \<Rightarrow>
          (case load_wrapped loads download self ontology_name of
             (Inr v, lg) \<Rightarrow> (Inr v, lg, take 10 ((ontology_name, v) # cache))
           | (Inl e, lg) \<Rightarrow> (Inl e, lg, cache)))"

text \<open>The caches that calls of \<^verbatim>\<open>load\<close> on one loader can build, from the empty cache.\<close>

inductive reachable :: "ontology_loader \<Rightarrow> cache \<Rightarrow> bool" for self where
  reachable_empty: "reachable self []"
| reachable_load:
    "reachable self cache \<Longrightarrow> load loads download self ontology_name cache = (r, lg, cache')
       \<Longrightarrow> reachable self cache'"

text \<open>
  A failure during loading: a client is set and the download raises, or \<^verbatim>\<open>json.loads\<close>
  raises on the bytes, or the validator raises on the parsed document.
\<close>

definition load_fails ::
  "(string \<Rightarrow> exn + json) \<Rightarrow> (client \<Rightarrow> string \<Rightarrow> string \<Rightarrow> exn + string)
     \<Rightarrow> ontology_loader \<Rightarrow> string \<Rightarrow> bool" where
  "load_fails loads download self ontology_name =
     (case blob_service_client self of
        None \<Rightarrow> False
      | Some c \<Rightarrow>
          (case download c (container_name self) (ontology_name @ ''.json'') of
             Inl e \<Rightarrow> True
           | Inr bytes \<Rightarrow>
               (case loads bytes of
                  Inl e \<Rightarrow> True
                | Inr ontology \<Rightarrow> isl (validate_ontology ontology))))"


section \<open>The verification core that \<^verbatim>\<open>function_app.verify\<close> calls\<close>

text \<open>
  \<^verbatim>\<open>function_app.verify\<close> passes the loaded ontology to \<^verbatim>\<open>LLMParser.parse\<close> and
  \<^verbatim>\<open>SMTVerifier.verify\<close> of the package \<^verbatim>\<open>aare_core\<close>, whose code is not among the sources.
  This section models that core from sections 3 and 4 of the specification.
\<close>

text \<open>
  Modelled from the spec: the values of an \<^verbatim>\<open>ExtractedAssignment\<close> (section 3), which the
  missing extraction engine produces: a number, held exactly, or a boolean.
\<close>

datatype val = VNum rat | VBool bool

text \<open>
  Modelled from the spec: \<^verbatim>\<open>ExtractedAssignment\<close> (section 3), which the missing extraction engine
  builds: a mapping from variable names to values, with no entry for an absent variable.
\<close>

type_synonym assignment = "string \<rightharpoonup> val"

text \<open>
  Modelled from the spec: the six comparison operators of a \<^verbatim>\<open>LogicalExpression\<close> (section 3),
  for the missing evaluation engine.
\<close>

datatype cmp_op = Le | Lt | Ge | Gt | Eq | Ne

text \<open>
  Modelled from the spec: \<^verbatim>\<open>LogicalExpression\<close> (section 3), the formula tree that the missing
  evaluation engine walks: AND, OR, NOT, IMPLIES, a comparison, a variable reference, a
  literal.
\<close>

datatype expr =
    AND expr expr
  | OR expr expr
  | NOT expr
  | IMPLIES expr expr
  | COMPARE cmp_op expr expr
  | VAR string
  | LITERAL val

text \<open>
  Modelled from the spec: \<^verbatim>\<open>Constraint\<close> (section 3), as the missing evaluation engine receives
  it, with its formula as a tree.
\<close>

record constraint =
  constraint_id :: string
  category :: string
  description :: string
  formula :: expr
  variables :: "(string \<times> string) list"
  error_message :: string
  citation :: string

text \<open>
  Modelled from the spec: \<^verbatim>\<open>ExtractorRule\<close> (section 3), read by the missing extraction engine: a
  pattern rule with its type and its pattern, or a keyword rule with its keywords.
\<close>

datatype extractor_rule = Pattern string string | Keyword "string list"

text \<open>
  Modelled from the spec: \<^verbatim>\<open>Ontology\<close> (section 3), the validated in-memory model that the
  missing core receives.
\<close>

record ontology =
  onto_name :: string
  onto_version :: string
  onto_description :: string
  constraints :: "constraint list"
  extractors :: "(string \<times> extractor_rule) list"

text \<open>
  Modelled from the spec: the truth value of a constraint in the proof trace of the missing
  evaluation engine (sections 4.3 and 7): true, false, unknown, or \<^verbatim>\<open>evaluation_failed\<close> for a
  formula that is ill-typed at evaluation time.
\<close>

datatype truth = TrueV | FalseV | UnknownV | EvaluationFailed

text \<open>
  Modelled from the spec: the result of evaluating a node of the formula tree in the missing
  evaluation engine: a value, unknown (an absent variable), or a type mismatch.
\<close>

datatype outcome = Known val | Unknown | Mismatch

text \<open>
  Modelled from the spec: the truth value that the missing evaluation engine reads off the
  result of a node; a number where a boolean is due is a type mismatch.
\<close>

fun truth_of :: "outcome \<Rightarrow> truth" where
  "truth_of (Known (VBool True)) = TrueV"
| "truth_of (Known (VBool False)) = FalseV"
| "truth_of (Known (VNum x)) = EvaluationFailed"
| "truth_of Unknown = UnknownV"
| "truth_of Mismatch = EvaluationFailed"

text \<open>
  Modelled from the spec: the result of a connective of the missing evaluation engine, as the
  result of its node.
\<close>

fun outcome_of :: "truth \<Rightarrow> outcome" where
  "outcome_of TrueV = Known (VBool True)"
| "outcome_of FalseV = Known (VBool False)"
| "outcome_of UnknownV = Unknown"
| "outcome_of EvaluationFailed = Mismatch"

text \<open>
  Modelled from the spec: three-valued NOT of the missing evaluation engine (section 4.3). In
  the connectives, unknown collapses to a definite value only beside a definite operand that
  decides the connective (\<^verbatim>\<open>false AND unknown = false\<close>); a failed operand fails the formula.
\<close>

fun not3 :: "truth \<Rightarrow> truth" where
  "not3 TrueV = FalseV"
| "not3 FalseV = TrueV"
| "not3 UnknownV = UnknownV"
| "not3 EvaluationFailed = EvaluationFailed"

text \<open>
  Modelled from the spec: three-valued AND of the missing evaluation engine (section 4.3).
\<close>

fun and3 :: "truth \<Rightarrow> truth \<Rightarrow> truth" where
  "and3 EvaluationFailed q = EvaluationFailed"
| "and3 p EvaluationFailed = EvaluationFailed"
| "and3 FalseV q = FalseV"
| "and3 p FalseV = FalseV"
| "and3 TrueV TrueV = TrueV"
| "and3 p q = UnknownV"

text \<open>
  Modelled from the spec: three-valued OR of the missing evaluation engine (section 4.3).
\<close>

fun or3 :: "truth \<Rightarrow> truth \<Rightarrow> truth" where
  "or3 EvaluationFailed q = EvaluationFailed"
| "or3 p EvaluationFailed = EvaluationFailed"
| "or3 TrueV q = TrueV"
| "or3 p TrueV = TrueV"
| "or3 FalseV FalseV = FalseV"
| "or3 p q = UnknownV"

text \<open>
  Modelled from the spec: three-valued IMPLIES of the missing evaluation engine (section 4.3).
\<close>

definition implies3 :: "truth \<Rightarrow> truth \<Rightarrow> truth" where
  "implies3 p q = or3 (not3 p) q"

text \<open>
  Modelled from the spec: comparison of two numbers in the missing evaluation engine
  (section 4.3), exact on rationals.
\<close>

fun compare_num :: "cmp_op \<Rightarrow> rat \<Rightarrow> rat \<Rightarrow> bool" where
  "compare_num Le x y = (x \<le> y)"
| "compare_num Lt x y = (x < y)"
| "compare_num Ge x y = (x \<ge> y)"
| "compare_num Gt x y = (x > y)"
| "compare_num Eq x y = (x = y)"
| "compare_num Ne x y = (x \<noteq> y)"

text \<open>
  Modelled from the spec: a comparison node of the missing evaluation engine (sections 3 and
  4.3). Numbers compare by all six operators, booleans for equality only; a comparison with
  an absent operand is unknown; any other pairing is a type mismatch.
\<close>

fun compare3 :: "cmp_op \<Rightarrow> outcome \<Rightarrow> outcome \<Rightarrow> outcome" where
  "compare3 op Mismatch r = Mismatch"
| "compare3 op l Mismatch = Mismatch"
| "compare3 op Unknown r = Unknown"
| "compare3 op l Unknown = Unknown"
| "compare3 op (Known (VNum x)) (Known (VNum y)) = Known (VBool (compare_num op x y))"
| "compare3 Eq (Known (VBool x)) (Known (VBool y)) = Known (VBool (x = y))"
| "compare3 Ne (Known (VBool x)) (Known (VBool y)) = Known (VBool (x \<noteq> y))"
| "compare3 op l r = Mismatch"

text \<open>
  Modelled from the spec: evaluation of a formula over an assignment in the missing
  evaluation engine (section 4.3): an atom whose variable is absent is unknown.
\<close>

fun eval :: "assignment \<Rightarrow> expr \<Rightarrow> outcome" where
  "eval a (VAR v) = (case a v of None \<Rightarrow> Unknown | Some x \<Rightarrow> Known x)"
| "eval a (LITERAL x) = Known x"
| "eval a (NOT e) = outcome_of (not3 (truth_of (eval a e)))"
| "eval a (AND l r) = outcome_of (and3 (truth_of (eval a l)) (truth_of (eval a r)))"
| "eval a (OR l r) = outcome_of (or3 (truth_of (eval a l)) (truth_of (eval a r)))"
| "eval a (IMPLIES l r) = outcome_of (implies3 (truth_of (eval a l)) (truth_of (eval a r)))"
| "eval a (COMPARE op l r) = compare3 op (eval a l) (eval a r)"

text \<open>
  Modelled from the spec: the variable references of a formula, in order of occurrence, for
  the proof trace of the missing evaluation engine.
\<close>

fun vars_of :: "expr \<Rightarrow> string list" where
  "vars_of (VAR v) = [v]"
| "vars_of (LITERAL x) = []"
| "vars_of (NOT e) = vars_of e"
| "vars_of (AND l r) = vars_of l @ vars_of r"
| "vars_of (OR l r) = vars_of l @ vars_of r"
| "vars_of (IMPLIES l r) = vars_of l @ vars_of r"
| "vars_of (COMPARE op l r) = vars_of l @ vars_of r"

text \<open>
  Modelled from the spec: \<^verbatim>\<open>variables_used\<close> of a record of the proof trace of the missing
  evaluation engine (section 4.3): the variables of the formula, each once.
\<close>

definition variables_of :: "expr \<Rightarrow> string list" where
  "variables_of e = remdups (vars_of e)"

text \<open>
  Modelled from the spec: \<^verbatim>\<open>Violation\<close> (section 3), built by the missing evaluation engine.
\<close>

record violation =
  violated_id :: string
  violated_category :: string
  violated_description :: string
  violated_error_message :: string
  violated_citation :: string
  assignment_snapshot :: "(string \<times> val option) list"

text \<open>
  Modelled from the spec: a record of the \<^verbatim>\<open>ProofTrace\<close> (section 4.3), built by the missing
  evaluation engine.
\<close>

record trace_record =
  trace_constraint_id :: string
  truth_value :: truth
  variables_used :: "string list"
  missing_variables :: "string list"

text \<open>
  Modelled from the spec: the result of \<^verbatim>\<open>evaluate\<close> (section 4.3) of the missing evaluation
  engine: verdict, violations, proof trace.
\<close>

record evaluation =
  verified :: bool
  violations :: "violation list"
  proof_trace :: "trace_record list"

text \<open>
  Modelled from the spec: \<^verbatim>\<open>VerificationResult\<close> (section 3), returned by the missing
  orchestrator: the evaluation and the execution time.
\<close>

record verification_result = evaluation +
  execution_time_ms :: rat

text \<open>
  Modelled from the spec: the truth value of a constraint under an assignment, in the missing
  evaluation engine (section 4.3).
\<close>

definition constraint_truth :: "assignment \<Rightarrow> constraint \<Rightarrow> truth" where
  "constraint_truth a c = truth_of (eval a (formula c))"

text \<open>
  Modelled from the spec: the \<^verbatim>\<open>Violation\<close> that the missing evaluation engine builds for a
  violated constraint (section 4.3): the constraint's own strings, and the snapshot of the
  variables of its formula.
\<close>

definition violation_of :: "assignment \<Rightarrow> constraint \<Rightarrow> violation" where
  "violation_of a c =
     \<lparr>violated_id = constraint_id c,
      violated_category = category c,
      violated_description = description c,
      violated_error_message = error_message c,
      violated_citation = citation c,
      assignment_snapshot = map (\<lambda>v. (v, a v)) (variables_of (formula c))\<rparr>"

text \<open>
  Modelled from the spec: the record of the proof trace that the missing evaluation engine
  builds for a constraint (section 4.3), with the variables of its formula that are absent.
\<close>

definition trace_of :: "assignment \<Rightarrow> constraint \<Rightarrow> trace_record" where
  "trace_of a c =
     \<lparr>trace_constraint_id = constraint_id c,
      truth_value = constraint_truth a c,
      variables_used = variables_of (formula c),
      missing_variables = filter (\<lambda>v. a v = None) (variables_of (formula c))\<rparr>"

text \<open>
  Modelled from the spec: \<^verbatim>\<open>evaluate(assignment, constraints)\<close> of the missing evaluation
  engine (section 4.3). A constraint is a violation when its formula is definitely false;
  the verdict is that the list of violations is empty; the proof trace has one record per
  constraint, in the ontology's order.
\<close>

definition evaluate :: "assignment \<Rightarrow> constraint list \<Rightarrow> evaluation" where
  "evaluate a cs =
     (let vs = map (violation_of a) (filter (\<lambda>c. constraint_truth a c = FalseV) cs)
      in \<lparr>verified = (vs = []), violations = vs, proof_trace = map (trace_of a) cs\<rparr>)"

text \<open>
  Modelled from the spec: lower case of an ASCII letter, for the case-insensitive match of the
  missing extraction engine (section 4.2).
\<close>

definition lower_char :: "char \<Rightarrow> char" where
  "lower_char c =
     (let n = (of_char c :: nat) in if 65 \<le> n \<and> n \<le> 90 then char_of (n + 32) else c)"

text \<open>
  Modelled from the spec: lower case of a string, for the case-insensitive match of the missing
  extraction engine (section 4.2).
\<close>

definition lower :: "string \<Rightarrow> string" where
  "lower s = map lower_char s"

text \<open>
  Modelled from the spec: one extractor rule of the missing extraction engine applied to the
  text (section 4.2). The pattern engine and the coercion of the captured group by type are
  the parameter \<open>match_pattern\<close> (type, pattern, text), with \<open>None\<close> for no match or a failed
  coercion. A keyword rule is true when the text contains one of the keywords,
  case-insensitively, and false otherwise.
\<close>

fun apply_rule ::
  "(string \<Rightarrow> string \<Rightarrow> string \<Rightarrow> val option) \<Rightarrow> string \<Rightarrow> extractor_rule \<Rightarrow> val option" where
  "apply_rule match_pattern text (Pattern ty pat) = match_pattern ty pat text"
| "apply_rule match_pattern text (Keyword keywords) =
     Some (VBool (list_ex (\<lambda>k. sublist (lower k) (lower text)) keywords))"

text \<open>
  Modelled from the spec: \<^verbatim>\<open>extract(text, extractors)\<close> of the missing extraction engine
  (section 4.2), named \<open>extract_text\<close> here. Each extractor is applied to the whole text on
  its own; a variable without an extractor is absent.
\<close>

definition extract_text ::
  "(string \<Rightarrow> string \<Rightarrow> string \<Rightarrow> val option) \<Rightarrow> string \<Rightarrow> (string \<times> extractor_rule) list
     \<Rightarrow> assignment" where
  "extract_text match_pattern text rules v =
     (case map_of rules v of
        None \<Rightarrow> None
      | Some rule \<Rightarrow> apply_rule match_pattern text rule)"

text \<open>
  Modelled from the spec: \<^verbatim>\<open>verify(text, ontology)\<close> of the missing orchestrator
  (section 4.4): extraction, evaluation, and the wall-clock time between the two readings
  of the clock, \<open>started\<close> and \<open>finished\<close>, in milliseconds. The ontology is the validated
  in-memory model.
\<close>

definition verify ::
  "(string \<Rightarrow> string \<Rightarrow> string \<Rightarrow> val option) \<Rightarrow> rat \<Rightarrow> rat \<Rightarrow> string \<Rightarrow> ontology
     \<Rightarrow> verification_result" where
  "verify match_pattern started finished text onto =
     evaluation.extend
       (evaluate (extract_text match_pattern text (extractors onto)) (constraints onto))
       (verification_result.fields (finished - started))"

text \<open>
  Modelled from the spec: the formula tree of \<^verbatim>\<open>ATR_QM_DTI\<close> for the missing evaluation engine,
  from its \<^verbatim>\<open>formula_readable\<close>.
\<close>

definition formula_ATR_QM_DTI :: expr where
  "formula_ATR_QM_DTI =
     OR (COMPARE Le (VAR ''dti'') (LITERAL (VNum 43)))
        (COMPARE Ge (VAR ''compensating_factors'') (LITERAL (VNum 2)))"

text \<open>
  Modelled from the spec: the formula tree of \<^verbatim>\<open>HOEPA_HIGH_COST\<close> for the missing evaluation
  engine, from its \<^verbatim>\<open>formula_readable\<close>.
\<close>

definition formula_HOEPA_HIGH_COST :: expr where
  "formula_HOEPA_HIGH_COST =
     OR (COMPARE Lt (VAR ''fee_percentage'') (LITERAL (VNum 8))) (VAR ''counseling_disclosed'')"

text \<open>
  Modelled from the spec: the formula tree of \<^verbatim>\<open>UDAAP_NO_GUARANTEES\<close> for the missing
  evaluation engine, from its \<^verbatim>\<open>formula_readable\<close>.
\<close>

definition formula_UDAAP_NO_GUARANTEES :: expr where
  "formula_UDAAP_NO_GUARANTEES = NOT (AND (VAR ''has_guarantee'') (VAR ''has_approval''))"

text \<open>
  Modelled from the spec: the formula tree of \<^verbatim>\<open>HPML_ESCROW\<close> for the missing evaluation
  engine, from its \<^verbatim>\<open>formula_readable\<close>.
\<close>

definition formula_HPML_ESCROW :: expr where
  "formula_HPML_ESCROW =
     OR (COMPARE Ge (VAR ''credit_score'') (LITERAL (VNum 620))) (NOT (VAR ''escrow_waived''))"

text \<open>
  Modelled from the spec: the formula tree of \<^verbatim>\<open>REG_B_ADVERSE\<close> for the missing evaluation
  engine, from its \<^verbatim>\<open>formula_readable\<close>.
\<close>

definition formula_REG_B_ADVERSE :: expr where
  "formula_REG_B_ADVERSE = IMPLIES (VAR ''is_denial'') (VAR ''has_specific_reason'')"

text \<open>
  Modelled from the spec: the formula trees of the default ontology by constraint id, for the
  missing parse of the ontology dict into the in-memory model.
\<close>

definition default_formulas :: "(string \<times> expr) list" where
  "default_formulas =
     [(''ATR_QM_DTI'', formula_ATR_QM_DTI),
      (''HOEPA_HIGH_COST'', formula_HOEPA_HIGH_COST),
      (''UDAAP_NO_GUARANTEES'', formula_UDAAP_NO_GUARANTEES),
      (''HPML_ESCROW'', formula_HPML_ESCROW),
      (''REG_B_ADVERSE'', formula_REG_B_ADVERSE)]"

text \<open>
  Modelled from the spec: a string field of the ontology dict, for the missing parse into the
  in-memory model.
\<close>

fun json_str :: "json option \<Rightarrow> string option" where
  "json_str (Some (JStr s)) = Some s"
| "json_str v = None"

text \<open>
  Modelled from the spec: a list of strings of the ontology dict, for the missing parse into
  the in-memory model.
\<close>

fun json_strs :: "json list \<Rightarrow> string list option" where
  "json_strs [] = Some []"
| "json_strs (JStr s # rest) = map_option (Cons s) (json_strs rest)"
| "json_strs (v # rest) = None"

text \<open>
  Modelled from the spec: a declared variable of a constraint of the ontology dict, for the
  missing parse into the in-memory model.
\<close>

fun variable_of_json :: "json \<Rightarrow> (string \<times> string) list" where
  "variable_of_json (JObj kvs) =
     (case (json_str (map_of kvs ''name''), json_str (map_of kvs ''type'')) of
        (Some n, Some t) \<Rightarrow> [(n, t)]
      | _ \<Rightarrow> [])"
| "variable_of_json v = []"

text \<open>
  Modelled from the spec: a \<^verbatim>\<open>Constraint\<close> from its dict, for the missing parse into the
  in-memory model; the formula tree comes from the table, by the constraint's id.
\<close>

fun constraint_of_json :: "(string \<times> expr) list \<Rightarrow> json \<Rightarrow> constraint option" where
  "constraint_of_json formulas (JObj kvs) =
     (case (json_str (map_of kvs ''id''), json_str (map_of kvs ''category''),
            json_str (map_of kvs ''description''), json_str (map_of kvs ''error_message''),
            json_str (map_of kvs ''citation''), map_of kvs ''variables'') of
        (Some i, Some cat, Some d, Some m, Some cit, Some (JArr vs)) \<Rightarrow>
          (case map_of formulas i of
             Some f \<Rightarrow>
               Some \<lparr>constraint_id = i, category = cat, description = d, formula = f,
                     variables = concat (map variable_of_json vs), error_message = m,
                     citation = cit\<rparr>
           | None \<Rightarrow> None)
      | _ \<Rightarrow> None)"
| "constraint_of_json formulas v = None"

text \<open>
  Modelled from the spec: an \<^verbatim>\<open>ExtractorRule\<close> from its dict, for the missing parse into the
  in-memory model: a pattern rule has \<^verbatim>\<open>pattern\<close>, a keyword rule has \<^verbatim>\<open>keywords\<close>.
\<close>

fun rule_of_json :: "json \<Rightarrow> extractor_rule option" where
  "rule_of_json (JObj kvs) =
     (case (json_str (map_of kvs ''type''), map_of kvs ''pattern'', map_of kvs ''keywords'') of
        (Some t, Some (JStr p), None) \<Rightarrow> Some (Pattern t p)
      | (Some t, None, Some (JArr ks)) \<Rightarrow> map_option Keyword (json_strs ks)
      | _ \<Rightarrow> None)"
| "rule_of_json v = None"

text \<open>
  Modelled from the spec: the missing parse into the in-memory model fails when the parse of
  one item fails.
\<close>

fun all_some :: "'a option list \<Rightarrow> 'a list option" where
  "all_some [] = Some []"
| "all_some (None # rest) = None"
| "all_some (Some x # rest) = map_option (Cons x) (all_some rest)"

text \<open>
  Modelled from the spec: the parse of an ontology dict into the in-memory \<^verbatim>\<open>Ontology\<close>, which
  section 6 leaves to the loader and no source performs.
\<close>

definition ontology_of_json :: "(string \<times> expr) list \<Rightarrow> json \<Rightarrow> ontology option" where
  "ontology_of_json formulas j =
     (case (subscript j ''name'', subscript j ''version'', subscript j ''description'',
            subscript j ''constraints'', subscript j ''extractors'') of
        (Inr (JStr n), Inr (JStr v), Inr (JStr d), Inr (JArr cs), Inr (JObj es)) \<Rightarrow>
          (case (all_some (map (constraint_of_json formulas) cs),
                 all_some (map (\<lambda>kv. map_option (Pair (fst kv)) (rule_of_json (snd kv))) es)) of
             (Some cs', Some es') \<Rightarrow>
               Some \<lparr>onto_name = n, onto_version = v, onto_description = d,
                     constraints = cs', extractors = es'\<rparr>
           | _ \<Rightarrow> None)
      | _ \<Rightarrow> None)"

text \<open>
  Modelled from the spec: the extractors of the default ontology in the in-memory model that
  the missing core receives; every string is the one of \<^verbatim>\<open>_get_default_ontology\<close>.
\<close>

definition default_rules :: "(string \<times> extractor_rule) list" where
  "default_rules =
     [(''dti'',
         Pattern ''float''
           (''dti[:'' @ bsl @ ''s~]*('' @ bsl @ ''d+(?:'' @ bsl @ ''.'' @ bsl @ ''d+)?)'')),
      (''credit_score'',
         Pattern ''int'' (''(?:fico|credit score)[:'' @ bsl @ ''s]*('' @ bsl @ ''d{3})'')),
      (''fees'',
         Pattern ''money'' (bsl @ ''$?(['' @ bsl @ ''d,]+)k?'' @ bsl @ ''s*(?:fees?|costs?)'')),
      (''loan_amount'',
         Pattern ''money'' (bsl @ ''$?(['' @ bsl @ ''d,]+)k?'' @ bsl @ ''s*(?:loan|mortgage)'')),
      (''has_guarantee'', Keyword [''guaranteed'', ''100%'', ''definitely'']),
      (''has_approval'', Keyword [''approved'', ''approve'']),
      (''counseling_disclosed'', Keyword [''counseling'']),
      (''escrow_waived'', Keyword [''escrow waived'', ''waive escrow'', ''skip escrow'']),
      (''is_denial'', Keyword [''denied'', ''cannot approve'']),
      (''has_specific_reason'', Keyword [''credit'', ''income'', ''dti'', ''debt'', ''score''])]"

text \<open>
  Modelled from the spec: \<^verbatim>\<open>ATR_QM_DTI\<close> of the default ontology in the in-memory model that
  the missing core receives.
\<close>

definition default_ATR_QM_DTI :: constraint where
  "default_ATR_QM_DTI =
     \<lparr>constraint_id = ''ATR_QM_DTI'',
      category = ''ATR/QM'',
      description = ''Debt-to-income ratio requirements'',
      formula = formula_ATR_QM_DTI,
      variables = [(''dti'', ''real''), (''compensating_factors'', ''int'')],
      error_message = ''DTI exceeds 43% without sufficient compensating factors'',
      citation = ''12 CFR '' @ u_section @ '' 1026.43(c)''\<rparr>"

text \<open>
  Modelled from the spec: \<^verbatim>\<open>HOEPA_HIGH_COST\<close> of the default ontology in the in-memory model
  that the missing core receives.
\<close>

definition default_HOEPA_HIGH_COST :: constraint where
  "default_HOEPA_HIGH_COST =
     \<lparr>constraint_id = ''HOEPA_HIGH_COST'',
      category = ''HOEPA'',
      description = ''High-cost mortgage counseling requirement'',
      formula = formula_HOEPA_HIGH_COST,
      variables = [(''fee_percentage'', ''real''), (''counseling_disclosed'', ''bool'')],
      error_message = ''HOEPA triggered - counseling disclosure required'',
      citation = ''12 CFR '' @ u_section @ '' 1026.32''\<rparr>"

text \<open>
  Modelled from the spec: \<^verbatim>\<open>UDAAP_NO_GUARANTEES\<close> of the default ontology in the in-memory
  model that the missing core receives.
\<close>

definition default_UDAAP_NO_GUARANTEES :: constraint where
  "default_UDAAP_NO_GUARANTEES =
     \<lparr>constraint_id = ''UDAAP_NO_GUARANTEES'',
      category = ''UDAAP'',
      description = ''Prohibition on guarantee language'',
      formula = formula_UDAAP_NO_GUARANTEES,
      variables = [(''has_guarantee'', ''bool''), (''has_approval'', ''bool'')],
      error_message = ''Cannot guarantee approval'',
      citation = ''12 CFR '' @ u_section @ '' 1036.3''\<rparr>"

text \<open>
  Modelled from the spec: \<^verbatim>\<open>HPML_ESCROW\<close> of the default ontology in the in-memory model that
  the missing core receives.
\<close>

definition default_HPML_ESCROW :: constraint where
  "default_HPML_ESCROW =
     \<lparr>constraint_id = ''HPML_ESCROW'',
      category = ''Escrow'',
      description = ''Escrow requirements based on FICO'',
      formula = formula_HPML_ESCROW,
      variables = [(''credit_score'', ''int''), (''escrow_waived'', ''bool'')],
      error_message = ''Cannot waive escrow with FICO < 620'',
      citation = ''12 CFR '' @ u_section @ '' 1026.35(b)''\<rparr>"

text \<open>
  Modelled from the spec: \<^verbatim>\<open>REG_B_ADVERSE\<close> of the default ontology in the in-memory model
  that the missing core receives.
\<close>

definition default_REG_B_ADVERSE :: constraint where
  "default_REG_B_ADVERSE =
     \<lparr>constraint_id = ''REG_B_ADVERSE'',
      category = ''Regulation B'',
      description = ''Adverse action disclosure requirements'',
      formula = formula_REG_B_ADVERSE,
      variables = [(''is_denial'', ''bool''), (''has_specific_reason'', ''bool'')],
      error_message = ''Must disclose specific denial reason'',
      citation = ''12 CFR '' @ u_section @ '' 1002.9''\<rparr>"

text \<open>
  Modelled from the spec: the default ontology in the in-memory model that the missing core
  receives: the data of \<^verbatim>\<open>_get_default_ontology\<close> with the formula trees.
\<close>

definition default_ontology :: ontology where
  "default_ontology =
     \<lparr>onto_name = ''mortgage-compliance-v1'',
      onto_version = ''1.0.0'',
      onto_description = ''U.S. Mortgage Compliance - Core constraints'',
      constraints =
        [default_ATR_QM_DTI, default_HOEPA_HIGH_COST, default_UDAAP_NO_GUARANTEES,
         default_HPML_ESCROW, default_REG_B_ADVERSE],
      extractors = default_rules\<rparr>"


section \<open>Properties of the validator and of the default ontology\<close>

lemma check_fields_dict:
  "check_fields fs (JObj kvs) =
     (case filter (\<lambda>field. field \<notin> set (map fst kvs)) fs of
        [] \<Rightarrow> Inr ()
      | f # rest \<Rightarrow> Inl (ValueError (''Invalid ontology: missing '' @ f)))"
  by (induction fs) auto

lemma validate_ontology_dict:
  "validate_ontology (JObj kvs) =
     (case missing_fields kvs of
        [] \<Rightarrow> Inr (JObj kvs)
      | f # rest \<Rightarrow> Inl (ValueError (''Invalid ontology: missing '' @ f)))"
  by (simp add: validate_ontology_def missing_fields_def check_fields_dict split: list.splits)

lemma validate_ontology_not_container:
  "validate_ontology JNull = Inl (TypeError ''argument of type 'NoneType' is not iterable'')"
  "validate_ontology (JBool b) = Inl (TypeError ''argument of type 'bool' is not iterable'')"
  "validate_ontology (JInt i) = Inl (TypeError ''argument of type 'int' is not iterable'')"
  "validate_ontology (JFloat x) = Inl (TypeError ''argument of type 'float' is not iterable'')"
  by (simp_all add: validate_ontology_def required_fields_def)

lemma missing_fields_empty:
  "(missing_fields kvs = []) = (set required_fields \<subseteq> set (map fst kvs))"
  by (auto simp: missing_fields_def filter_empty_conv)

lemma referenced_variables_default:
  "referenced_variables get_default_ontology =
     [''dti'', ''compensating_factors'', ''fee_percentage'', ''counseling_disclosed'',
      ''has_guarantee'', ''has_approval'', ''credit_score'', ''escrow_waived'',
      ''is_denial'', ''has_specific_reason'']"
  by (simp add: referenced_variables_def get_default_ontology_def default_constraints_def
      constraint_ATR_QM_DTI_def constraint_HOEPA_HIGH_COST_def
      constraint_UDAAP_NO_GUARANTEES_def constraint_HPML_ESCROW_def
      constraint_REG_B_ADVERSE_def)

lemma extractor_keys_default:
  "extractor_keys get_default_ontology =
     [''dti'', ''credit_score'', ''fees'', ''loan_amount'', ''has_guarantee'', ''has_approval'',
      ''counseling_disclosed'', ''escrow_waived'', ''is_denial'', ''has_specific_reason'']"
  by (simp add: extractor_keys_def get_default_ontology_def default_extractors_def)

lemma validate_default_ontology:
  "validate_ontology get_default_ontology = Inr get_default_ontology"
  by (simp add: validate_ontology_def required_fields_def get_default_ontology_def)


text \<open>
  Claim C3. For an ontology document (a dict) that lacks at least one of the required
  top-level fields \<^verbatim>\<open>name\<close>, \<^verbatim>\<open>version\<close>, \<^verbatim>\<open>constraints\<close>, \<^verbatim>\<open>extractors\<close>, validation raises
  the error that names the first missing field, in the order the fields are listed; a
  document that has all four is returned unchanged. The error of the code is
  \<^verbatim>\<open>ValueError("Invalid ontology: missing <field>")\<close>.
\<close>

theorem validate_ontology_required_fields:
  "(\<not> set required_fields \<subseteq> set (map fst kvs) \<longrightarrow>
      (\<exists>f rest. missing_fields kvs = f # rest \<and>
         validate_ontology (JObj kvs) = Inl (ValueError (''Invalid ontology: missing '' @ f)))) \<and>
   (set required_fields \<subseteq> set (map fst kvs) \<longrightarrow>
      validate_ontology (JObj kvs) = Inr (JObj kvs))"
proof (cases "missing_fields kvs")
  case Nil
  then show ?thesis
    using missing_fields_empty [of kvs] by (simp add: validate_ontology_dict)
next
  case (Cons f rest)
  then show ?thesis
    using missing_fields_empty [of kvs] by (simp add: validate_ontology_dict)
qed

theorem validate_ontology_required_fields_witness:
  "\<not> set required_fields \<subseteq>
       set (map fst [(''name'', JStr ''n''), (''version'', JStr ''1''), (''constraints'', JArr [])]) \<and>
   missing_fields [(''name'', JStr ''n''), (''version'', JStr ''1''), (''constraints'', JArr [])]
     = [''extractors''] \<and>
   validate_ontology
     (JObj [(''name'', JStr ''n''), (''version'', JStr ''1''), (''constraints'', JArr [])])
     = Inl (ValueError ''Invalid ontology: missing extractors'') \<and>
   set required_fields \<subseteq>
       set (map fst [(''name'', JStr ''n''), (''version'', JStr ''1''), (''constraints'', JArr []),
                     (''extractors'', JObj [])]) \<and>
   validate_ontology
     (JObj [(''name'', JStr ''n''), (''version'', JStr ''1''), (''constraints'', JArr []),
            (''extractors'', JObj [])])
     = Inr (JObj [(''name'', JStr ''n''), (''version'', JStr ''1''), (''constraints'', JArr []),
                  (''extractors'', JObj [])])"
  using validate_ontology_required_fields
          [of "[(''name'', JStr ''n''), (''version'', JStr ''1''), (''constraints'', JArr [])]"]
        validate_ontology_required_fields
          [of "[(''name'', JStr ''n''), (''version'', JStr ''1''), (''constraints'', JArr []),
                (''extractors'', JObj [])]"]
  by (simp add: required_fields_def missing_fields_def)


text \<open>
  Claim C4. The default ontology is a constant of the loader (it needs no input), its version
  is \<^verbatim>\<open>1.0.0\<close>, it has exactly 5 constraints and 10 extractors under distinct keys, and the
  validator returns it unchanged.
\<close>

theorem default_ontology_shape:
  "subscript get_default_ontology ''version'' = Inr (JStr ''1.0.0'') \<and>
   subscript get_default_ontology ''constraints'' = Inr (JArr default_constraints) \<and>
   length default_constraints = 5 \<and>
   subscript get_default_ontology ''extractors'' = Inr (JObj default_extractors) \<and>
   length default_extractors = 10 \<and>
   distinct (map fst default_extractors) \<and>
   validate_ontology get_default_ontology = Inr get_default_ontology"
  by (simp add: get_default_ontology_def default_constraints_def default_extractors_def
      validate_ontology_def required_fields_def)


text \<open>
  Claim C1, as stated: every variable of every constraint of the default ontology is a key
  of its \<^verbatim>\<open>extractors\<close>. It fails: \<^verbatim>\<open>compensating_factors\<close> is a variable of \<^verbatim>\<open>ATR_QM_DTI\<close>
  and no extractor has that key.
\<close>

theorem default_variables_counterexample:
  "''compensating_factors'' \<in> set (constraint_variables constraint_ATR_QM_DTI) \<and>
   ''compensating_factors'' \<in> set (referenced_variables get_default_ontology) \<and>
   ''compensating_factors'' \<notin> set (extractor_keys get_default_ontology)"
  by (simp add: referenced_variables_default extractor_keys_default constraint_ATR_QM_DTI_def)

text \<open>
  Claim C1, amended. The constraints of the default ontology declare the ten variables
  the claim lists; eight of them are keys of \<^verbatim>\<open>extractors\<close>, and the two that are not are
  \<^verbatim>\<open>compensating_factors\<close> and \<^verbatim>\<open>fee_percentage\<close>. The two extractor keys that no constraint
  uses are \<^verbatim>\<open>fees\<close> and \<^verbatim>\<open>loan_amount\<close>.
\<close>

theorem default_variables_with_extractors:
  "referenced_variables get_default_ontology =
     [''dti'', ''compensating_factors'', ''fee_percentage'', ''counseling_disclosed'',
      ''has_guarantee'', ''has_approval'', ''credit_score'', ''escrow_waived'',
      ''is_denial'', ''has_specific_reason''] \<and>
   filter (\<lambda>v. v \<notin> set (extractor_keys get_default_ontology))
     (referenced_variables get_default_ontology)
     = [''compensating_factors'', ''fee_percentage''] \<and>
   filter (\<lambda>k. k \<notin> set (referenced_variables get_default_ontology))
     (extractor_keys get_default_ontology)
     = [''fees'', ''loan_amount'']"
  by (simp add: referenced_variables_default extractor_keys_default)


subsection \<open>The loader\<close>

lemma handlers_returns_value:
  "\<exists>v lg. handlers ontology_name r = (Inr v, lg)"
  by (cases "(ontology_name, r)" rule: handlers.cases) auto

lemma handlers_exception:
  "fst (handlers ontology_name (Inl e)) = Inr get_default_ontology"
  by (cases e) auto

lemma try_block_fails:
  "load_fails loads download self ontology_name =
     isl (try_block loads download self ontology_name)"
  by (auto simp: load_fails_def try_block_def split: option.splits sum.splits)

lemma load_wrapped_no_client:
  "blob_service_client self = None \<Longrightarrow>
   load_wrapped loads download self ontology_name =
     (Inr get_default_ontology, [(INFO, ''Using default ontology for '' @ ontology_name)])"
  by (simp add: load_wrapped_def try_block_def)

lemma load_wrapped_fails:
  "load_fails loads download self ontology_name \<Longrightarrow>
   fst (load_wrapped loads download self ontology_name) = Inr get_default_ontology"
  by (cases "try_block loads download self ontology_name")
     (auto simp: try_block_fails load_wrapped_def handlers_exception)

lemma validate_ontology_raises:
  "validate_ontology ontology = Inl e \<Longrightarrow> (\<exists>m. e = ValueError m) \<or> (\<exists>m. e = TypeError m)"
proof -
  have "check_fields fs ontology = Inl e \<Longrightarrow> (\<exists>m. e = ValueError m) \<or> (\<exists>m. e = TypeError m)"
    for fs
    by (induction fs) (cases ontology; auto split: if_splits)+
  then show "validate_ontology ontology = Inl e \<Longrightarrow> ?thesis"
    by (auto simp: validate_ontology_def split: sum.splits)
qed

lemma reachable_no_client_values:
  assumes "reachable self cache" and "blob_service_client self = None"
  shows "snd ` set cache \<subseteq> {get_default_ontology}"
  using assms
proof (induction rule: reachable.induct)
  case reachable_empty
  then show ?case by simp
next
  case (reachable_load cache loads download ontology_name r lg cache')
  then have old: "snd ` set cache \<subseteq> {get_default_ontology}" by simp
  show ?case
  proof (cases "map_of cache ontology_name")
    case None
    then have "cache' = take 10 ((ontology_name, get_default_ontology) # cache)"
      using reachable_load.hyps(2) reachable_load.prems
      by (simp add: load_def load_wrapped_no_client)
    then have "set cache' \<subseteq> insert (ontology_name, get_default_ontology) (set cache)"
      using set_take_subset [of 10 "(ontology_name, get_default_ontology) # cache"] by simp
    then show ?thesis using old by force
  next
    case (Some v)
    then have "(ontology_name, v) \<in> set cache" by (rule map_of_SomeD)
    then have v: "v = get_default_ontology" using old by force
    have "cache' = (ontology_name, v) # filter (\<lambda>kv. fst kv \<noteq> ontology_name) cache"
      using reachable_load.hyps(2) Some by (simp add: load_def)
    then show ?thesis using old v by auto
  qed
qed

lemma load_no_client:
  assumes "reachable self cache" and "blob_service_client self = None"
  shows "fst (load loads download self ontology_name cache) = Inr get_default_ontology"
proof (cases "map_of cache ontology_name")
  case None
  then show ?thesis using assms(2) by (simp add: load_def load_wrapped_no_client)
next
  case (Some v)
  then have "(ontology_name, v) \<in> set cache" by (rule map_of_SomeD)
  then have "v = get_default_ontology"
    using reachable_no_client_values [OF assms] by force
  then show ?thesis using Some by (simp add: load_def)
qed

lemma load_miss_fails:
  assumes "map_of cache ontology_name = None" and "load_fails loads download self ontology_name"
  shows "fst (load loads download self ontology_name cache) = Inr get_default_ontology"
proof -
  obtain lg where "load_wrapped loads download self ontology_name = (Inr get_default_ontology, lg)"
    using load_wrapped_fails [OF assms(2)]
    by (cases "load_wrapped loads download self ontology_name") auto
  then show ?thesis using assms(1) by (simp add: load_def)
qed

lemma init_no_connection_string:
  "connection_string (fst (init environ from_connection_string cn cs)) = [] \<Longrightarrow>
   blob_service_client (fst (init environ from_connection_string cn cs)) = None"
  by (auto simp: init_def Let_def split: sum.splits if_splits)

text \<open>
  Claim C10. A loader whose connection string is empty has no blob client. On a loader
  without a client, every call of \<^verbatim>\<open>load\<close>, for every ontology name and at every cache its
  earlier calls can have built, returns the default ontology. On a loader with a client,
  a call that loads (the name is not cached) and meets a failure (the download raises,
  \<^verbatim>\<open>json.loads\<close> raises, or the validator raises) returns the default ontology as well.
  In neither case does an exception leave \<^verbatim>\<open>load\<close>.
\<close>

theorem load_falls_back_to_default:
  "(connection_string (fst (init environ from_connection_string cn cs)) = [] \<longrightarrow>
      blob_service_client (fst (init environ from_connection_string cn cs)) = None) \<and>
   (reachable self cache \<and> blob_service_client self = None \<longrightarrow>
      fst (load loads download self ontology_name cache) = Inr get_default_ontology) \<and>
   (map_of cache ontology_name = None \<and> load_fails loads download self ontology_name \<longrightarrow>
      fst (load loads download self ontology_name cache) = Inr get_default_ontology)"
  using init_no_connection_string load_no_client load_miss_fails by blast

theorem load_falls_back_to_default_witness:
  "connection_string (fst (init Map.empty (\<lambda>s. Inr (BlobServiceClient s)) None None)) = [] \<and>
   blob_service_client (fst (init Map.empty (\<lambda>s. Inr (BlobServiceClient s)) None None)) = None \<and>
   reachable
     \<lparr>container_name = ''ontologies'', connection_string = [], blob_service_client = None\<rparr> [] \<and>
   fst (load (\<lambda>b. Inr (JObj [])) (\<lambda>c n b. Inr ''{}'')
          \<lparr>container_name = ''ontologies'', connection_string = [], blob_service_client = None\<rparr>
          ''unknown-ontology'' [])
     = Inr get_default_ontology \<and>
   map_of ([] :: cache) ''unknown-ontology'' = None \<and>
   load_fails (\<lambda>b. Inr (JObj [])) (\<lambda>c n b. Inl (ResourceNotFoundError ''BlobNotFound''))
     \<lparr>container_name = ''ontologies'', connection_string = ''UseDevelopmentStorage=true'',
      blob_service_client = Some (BlobServiceClient ''UseDevelopmentStorage=true'')\<rparr>
     ''unknown-ontology'' \<and>
   fst (load (\<lambda>b. Inr (JObj [])) (\<lambda>c n b. Inl (ResourceNotFoundError ''BlobNotFound''))
          \<lparr>container_name = ''ontologies'', connection_string = ''UseDevelopmentStorage=true'',
           blob_service_client = Some (BlobServiceClient ''UseDevelopmentStorage=true'')\<rparr>
          ''unknown-ontology'' [])
     = Inr get_default_ontology"
proof -
  let ?off = "\<lparr>container_name = ''ontologies'', connection_string = [],
               blob_service_client = None\<rparr>"
  let ?on = "\<lparr>container_name = ''ontologies'', connection_string = ''UseDevelopmentStorage=true'',
              blob_service_client = Some (BlobServiceClient ''UseDevelopmentStorage=true'')\<rparr>"
  let ?gone = "\<lambda>(c::client) (n::string) (b::string). (Inl (ResourceNotFoundError ''BlobNotFound'') :: exn + string)"
  let ?loads = "\<lambda>b::string. (Inr (JObj []) :: exn + json)"
  have i: "fst (init Map.empty (\<lambda>s. Inr (BlobServiceClient s)) None None) = ?off"
    by (simp add: init_def py_or_def environ_get_def)
  have r: "reachable ?off []"
    by (rule reachable_empty)
  have f: "load_fails ?loads ?gone ?on ''unknown-ontology''"
    by (simp add: load_fails_def)
  have m: "map_of ([] :: cache) ''unknown-ontology'' = None"
    by simp
  note t1 = load_falls_back_to_default
              [where environ = Map.empty and from_connection_string = "\<lambda>s. Inr (BlobServiceClient s)"
                 and cn = None and cs = None and self = ?off and cache = "[]"
                 and loads = ?loads and download = "\<lambda>c n b. Inr ''{}''"
                 and ontology_name = "''unknown-ontology''"]
  note t2 = load_falls_back_to_default
              [where self = ?on and cache = "[]" and loads = ?loads and download = ?gone
                 and ontology_name = "''unknown-ontology''"]
  show ?thesis
    using t1 t2 i r f m by simp
qed


text \<open>
  Claim C2, as stated: a document that fails validation aborts the call with the error, and
  the loader never puts the default ontology in its place. It fails: the storage holds the
  document \<^verbatim>\<open>{}\<close>, the validator raises on it, and \<^verbatim>\<open>load\<close> returns the default ontology
  after logging a warning.
\<close>

theorem schema_error_counterexample:
  "validate_ontology (JObj []) = Inl (ValueError ''Invalid ontology: missing name'') \<and>
   load (\<lambda>b. if b = ''{}'' then Inr (JObj []) else Inl (ValueError ''Expecting value''))
        (\<lambda>c n b. Inr ''{}'')
        \<lparr>container_name = ''ontologies'', connection_string = ''UseDevelopmentStorage=true'',
         blob_service_client = Some (BlobServiceClient ''UseDevelopmentStorage=true'')\<rparr>
        ''custom-rules'' []
     = (Inr get_default_ontology,
        [(WARNING, ''Failed to load from Blob Storage: Invalid ontology: missing name''),
         (INFO, ''Using default ontology for custom-rules'')],
        [(''custom-rules'', get_default_ontology)])"
  by (simp add: validate_ontology_def required_fields_def load_def load_wrapped_def try_block_def)

text \<open>
  Claim C2, amended. When the document that \<^verbatim>\<open>load\<close> downloads and parses fails validation,
  the validator raises, and \<^verbatim>\<open>load\<close> catches the error: it logs a warning with the error's
  message, returns the default ontology in place of the document, and caches the default
  under the requested name. The error does not reach the caller of \<^verbatim>\<open>load\<close>.
\<close>

theorem load_catches_schema_error:
  assumes "blob_service_client self = Some c"
    and "download c (container_name self) (ontology_name @ ''.json'') = Inr bytes"
    and "loads bytes = Inr ontology"
    and "validate_ontology ontology = Inl e"
    and "map_of cache ontology_name = None"
  shows "load loads download self ontology_name cache
           = (Inr get_default_ontology,
              [(WARNING, ''Failed to load from Blob Storage: '' @ str_exn e),
               (INFO, ''Using default ontology for '' @ ontology_name)],
              take 10 ((ontology_name, get_default_ontology) # cache))"
proof -
  have t: "try_block loads download self ontology_name = Inl e"
    using assms(1-4) by (simp add: try_block_def)
  from validate_ontology_raises [OF assms(4)]
  have "handlers ontology_name (Inl e)
          = (Inr get_default_ontology,
             [(WARNING, ''Failed to load from Blob Storage: '' @ str_exn e),
              (INFO, ''Using default ontology for '' @ ontology_name)])"
    by auto
  then show ?thesis
    using t assms(5) by (simp add: load_def load_wrapped_def)
qed

theorem load_catches_schema_error_witness:
  "blob_service_client
     \<lparr>container_name = ''ontologies'', connection_string = ''UseDevelopmentStorage=true'',
      blob_service_client = Some (BlobServiceClient ''UseDevelopmentStorage=true'')\<rparr>
     = Some (BlobServiceClient ''UseDevelopmentStorage=true'') \<and>
   validate_ontology
     (JObj [(''name'', JStr ''n''), (''version'', JStr ''1''), (''constraints'', JArr [])])
     = Inl (ValueError ''Invalid ontology: missing extractors'') \<and>
   map_of ([] :: cache) ''custom-rules'' = None \<and>
   load (\<lambda>b. Inr (JObj [(''name'', JStr ''n''), (''version'', JStr ''1''),
                          (''constraints'', JArr [])]))
        (\<lambda>c n b. Inr ''doc'')
        \<lparr>container_name = ''ontologies'', connection_string = ''UseDevelopmentStorage=true'',
         blob_service_client = Some (BlobServiceClient ''UseDevelopmentStorage=true'')\<rparr>
        ''custom-rules'' []
     = (Inr get_default_ontology,
        [(WARNING, ''Failed to load from Blob Storage: Invalid ontology: missing extractors''),
         (INFO, ''Using default ontology for custom-rules'')],
        [(''custom-rules'', get_default_ontology)])"
proof -
  let ?doc = "JObj [(''name'', JStr ''n''), (''version'', JStr ''1''), (''constraints'', JArr [])]"
  let ?on = "\<lparr>container_name = ''ontologies'', connection_string = ''UseDevelopmentStorage=true'',
              blob_service_client = Some (BlobServiceClient ''UseDevelopmentStorage=true'')\<rparr>"
  have v: "validate_ontology ?doc = Inl (ValueError ''Invalid ontology: missing extractors'')"
    by (simp add: validate_ontology_def required_fields_def)
  have c: "blob_service_client ?on = Some (BlobServiceClient ''UseDevelopmentStorage=true'')"
    by simp
  have d: "(\<lambda>(c::client) (n::string) (b::string). (Inr ''doc'' :: exn + string))
             (BlobServiceClient ''UseDevelopmentStorage=true'') (container_name ?on)
             (''custom-rules'' @ ''.json'') = Inr ''doc''"
    by simp
  have l: "(\<lambda>b::string. (Inr ?doc :: exn + json)) ''doc'' = Inr ?doc"
    by simp
  have m: "map_of ([] :: cache) ''custom-rules'' = None"
    by simp
  from load_catches_schema_error [OF c d l v m] v c m
  show ?thesis by simp
qed


section \<open>Properties of the verification core\<close>

lemma default_ontology_parsed:
  "ontology_of_json default_formulas get_default_ontology = Some default_ontology"
  by (simp add: ontology_of_json_def get_default_ontology_def default_constraints_def
      default_extractors_def default_ontology_def default_rules_def default_formulas_def
      constraint_ATR_QM_DTI_def constraint_HOEPA_HIGH_COST_def
      constraint_UDAAP_NO_GUARANTEES_def constraint_HPML_ESCROW_def
      constraint_REG_B_ADVERSE_def default_ATR_QM_DTI_def default_HOEPA_HIGH_COST_def
      default_UDAAP_NO_GUARANTEES_def default_HPML_ESCROW_def default_REG_B_ADVERSE_def)

lemma truth_of_outcome_of: "truth_of (outcome_of t) = t"
  by (cases t) simp_all

lemma violation_is_false:
  "v \<in> set (violations (evaluate a cs)) \<Longrightarrow>
   \<exists>c. c \<in> set cs \<and> v = violation_of a c \<and> constraint_truth a c = FalseV"
  by (auto simp: evaluate_def Let_def)

lemma violated_id_is_false:
  assumes "i \<in> set (map violated_id (violations (evaluate a cs)))"
  shows "\<exists>c. c \<in> set cs \<and> constraint_id c = i \<and> constraint_truth a c = FalseV"
proof -
  from assms obtain v where v: "v \<in> set (violations (evaluate a cs))" and i: "i = violated_id v"
    by auto
  from violation_is_false [OF v] obtain c
    where "c \<in> set cs" "v = violation_of a c" "constraint_truth a c = FalseV" by blast
  then show ?thesis using i by (auto simp: violation_of_def)
qed

lemma verify_violations:
  "violations (verify mp s f text onto)
     = violations (evaluate (extract_text mp text (extractors onto)) (constraints onto))"
  by (simp add: verify_def evaluation.defs)

lemma verify_proof_trace:
  "proof_trace (verify mp s f text onto)
     = proof_trace (evaluate (extract_text mp text (extractors onto)) (constraints onto))"
  by (simp add: verify_def evaluation.defs)

lemma verify_verified:
  "verified (verify mp s f text onto)
     = verified (evaluate (extract_text mp text (extractors onto)) (constraints onto))"
  by (simp add: verify_def evaluation.defs)



lemma default_constraint_ids:
  "constraint_id default_ATR_QM_DTI = ''ATR_QM_DTI''"
  "constraint_id default_HOEPA_HIGH_COST = ''HOEPA_HIGH_COST''"
  "constraint_id default_UDAAP_NO_GUARANTEES = ''UDAAP_NO_GUARANTEES''"
  "constraint_id default_HPML_ESCROW = ''HPML_ESCROW''"
  "constraint_id default_REG_B_ADVERSE = ''REG_B_ADVERSE''"
  by (simp_all add: default_ATR_QM_DTI_def default_HOEPA_HIGH_COST_def
      default_UDAAP_NO_GUARANTEES_def default_HPML_ESCROW_def default_REG_B_ADVERSE_def)

lemma default_constraints_list:
  "constraints default_ontology =
     [default_ATR_QM_DTI, default_HOEPA_HIGH_COST, default_UDAAP_NO_GUARANTEES,
      default_HPML_ESCROW, default_REG_B_ADVERSE]"
  by (simp add: default_ontology_def)

lemma default_ids:
  assumes "c \<in> set (constraints default_ontology)" and "constraint_id c = ''ATR_QM_DTI''"
  shows "c = default_ATR_QM_DTI"
proof -
  from assms(1) consider "c = default_ATR_QM_DTI" | "c = default_HOEPA_HIGH_COST"
    | "c = default_UDAAP_NO_GUARANTEES" | "c = default_HPML_ESCROW" | "c = default_REG_B_ADVERSE"
    unfolding default_constraints_list by auto
  then show ?thesis
  proof cases
    case 1 then show ?thesis .
  next
    case 2 with assms(2) show ?thesis by (simp add: default_constraint_ids)
  next
    case 3 with assms(2) show ?thesis by (simp add: default_constraint_ids)
  next
    case 4 with assms(2) show ?thesis by (simp add: default_constraint_ids)
  next
    case 5 with assms(2) show ?thesis by (simp add: default_constraint_ids)
  qed
qed


lemma ATR_not_violated:
  assumes "constraint_truth a default_ATR_QM_DTI \<noteq> FalseV"
  shows "''ATR_QM_DTI'' \<notin> set (map violated_id (violations (evaluate a (constraints default_ontology))))"
proof
  assume "''ATR_QM_DTI'' \<in> set (map violated_id (violations (evaluate a (constraints default_ontology))))"
  from violated_id_is_false [OF this] obtain c
    where c: "c \<in> set (constraints default_ontology)" "constraint_id c = ''ATR_QM_DTI''"
      "constraint_truth a c = FalseV" by blast
  from default_ids [OF c(1,2)] c(3) assms show False by simp
qed

lemma compensating_factors_absent:
  "extract_text mp text (extractors default_ontology) ''compensating_factors'' = None"
  by (simp add: extract_text_def default_ontology_def default_rules_def)

lemma ATR_truth_absent:
  assumes "a ''dti'' = None" and "a ''compensating_factors'' = None"
  shows "constraint_truth a default_ATR_QM_DTI = UnknownV"
  using assms by (simp add: constraint_truth_def default_ATR_QM_DTI_def formula_ATR_QM_DTI_def)

lemma ATR_trace_absent:
  assumes "a ''dti'' = None" and "a ''compensating_factors'' = None"
  shows "trace_of a default_ATR_QM_DTI =
    \<lparr>trace_constraint_id = ''ATR_QM_DTI'', truth_value = UnknownV,
     variables_used = [''dti'', ''compensating_factors''],
     missing_variables = [''dti'', ''compensating_factors'']\<rparr>"
proof -
  have v: "variables_of (formula default_ATR_QM_DTI) = [''dti'', ''compensating_factors'']"
    by (simp add: variables_of_def default_ATR_QM_DTI_def formula_ATR_QM_DTI_def)
  show ?thesis
    using assms ATR_truth_absent [OF assms]
    by (simp add: trace_of_def v default_constraint_ids)
qed

lemma default_trace_head:
  "proof_trace (evaluate a (constraints default_ontology))
     = trace_of a default_ATR_QM_DTI #
       map (trace_of a) [default_HOEPA_HIGH_COST, default_UDAAP_NO_GUARANTEES,
                         default_HPML_ESCROW, default_REG_B_ADVERSE]"
  by (simp add: evaluate_def Let_def default_constraints_list)


text \<open>
  Claim C5. For every ontology in the in-memory model and every text, the result of
  \<^verbatim>\<open>verify\<close> has \<^verbatim>\<open>verified\<close> true exactly when its list of violations is empty.
\<close>

theorem verified_iff_no_violations:
  "verified (verify match_pattern started finished text onto)
     = (violations (verify match_pattern started finished text onto) = [])"
  by (simp add: verify_verified verify_violations evaluate_def Let_def)

text \<open>
  Claim C6. With the default ontology, for every text from which no value of \<^verbatim>\<open>dti\<close> is
  extracted, \<^verbatim>\<open>ATR_QM_DTI\<close> evaluates to unknown, it is not among the violations, and the
  proof trace holds its record with truth value unknown and \<^verbatim>\<open>dti\<close> among the missing
  variables (together with \<^verbatim>\<open>compensating_factors\<close>, which has no extractor). In general,
  every violation comes from a constraint whose formula evaluates to false.
\<close>

theorem absent_dti_is_unknown:
  "(extract_text mp llm_output (extractors default_ontology) ''dti'' = None \<longrightarrow>
      constraint_truth (extract_text mp llm_output (extractors default_ontology)) default_ATR_QM_DTI
        = UnknownV \<and>
      ''ATR_QM_DTI'' \<notin> set (map violated_id (violations (verify mp s f llm_output default_ontology))) \<and>
      (\<exists>rest. proof_trace (verify mp s f llm_output default_ontology) =
         \<lparr>trace_constraint_id = ''ATR_QM_DTI'', truth_value = UnknownV,
          variables_used = [''dti'', ''compensating_factors''],
          missing_variables = [''dti'', ''compensating_factors'']\<rparr> # rest)) \<and>
   (v \<in> set (violations (evaluate a cs)) \<longrightarrow>
      (\<exists>c. c \<in> set cs \<and> v = violation_of a c \<and> constraint_truth a c = FalseV))"
proof -
  let ?a = "extract_text mp llm_output (extractors default_ontology)"
  have cf: "?a ''compensating_factors'' = None"
    by (rule compensating_factors_absent)
  have first: "constraint_truth ?a default_ATR_QM_DTI = UnknownV \<and>
      ''ATR_QM_DTI'' \<notin> set (map violated_id (violations (verify mp s f llm_output default_ontology))) \<and>
      (\<exists>rest. proof_trace (verify mp s f llm_output default_ontology) =
         \<lparr>trace_constraint_id = ''ATR_QM_DTI'', truth_value = UnknownV,
          variables_used = [''dti'', ''compensating_factors''],
          missing_variables = [''dti'', ''compensating_factors'']\<rparr> # rest)"
    if dti: "?a ''dti'' = None"
  proof -
    have t: "constraint_truth ?a default_ATR_QM_DTI = UnknownV"
      using dti cf by (rule ATR_truth_absent)
    then have "constraint_truth ?a default_ATR_QM_DTI \<noteq> FalseV"
      by simp
    then have nv: "''ATR_QM_DTI'' \<notin>
        set (map violated_id (violations (evaluate ?a (constraints default_ontology))))"
      by (rule ATR_not_violated)
    have tr: "trace_of ?a default_ATR_QM_DTI =
        \<lparr>trace_constraint_id = ''ATR_QM_DTI'', truth_value = UnknownV,
         variables_used = [''dti'', ''compensating_factors''],
         missing_variables = [''dti'', ''compensating_factors'']\<rparr>"
      using dti cf by (rule ATR_trace_absent)
    show ?thesis
      using t nv tr by (simp only: verify_violations verify_proof_trace default_trace_head) simp
  qed
  have second: "\<exists>c. c \<in> set cs \<and> v = violation_of a c \<and> constraint_truth a c = FalseV"
    if "v \<in> set (violations (evaluate a cs))"
    using that by (rule violation_is_false)
  show ?thesis
    using first second by blast
qed

text \<open>
  Claim C8. Numbers are compared exactly: under every assignment with \<^verbatim>\<open>dti = 43\<close> the
  comparison \<^verbatim>\<open>dti \<le> 43\<close> of \<^verbatim>\<open>ATR_QM_DTI\<close> is true, the constraint is not false, and it
  is not among the violations.
\<close>

theorem dti_43_satisfies:
  assumes "a ''dti'' = Some (VNum 43)"
  shows "eval a (COMPARE Le (VAR ''dti'') (LITERAL (VNum 43))) = Known (VBool True) \<and>
   constraint_truth a default_ATR_QM_DTI \<noteq> FalseV \<and>
   ''ATR_QM_DTI'' \<notin> set (map violated_id (violations (evaluate a (constraints default_ontology))))"
proof -
  have c: "eval a (COMPARE Le (VAR ''dti'') (LITERAL (VNum 43))) = Known (VBool True)"
    using assms by simp
  have o: "or3 TrueV q \<noteq> FalseV" for q
    by (cases q) simp_all
  have "constraint_truth a default_ATR_QM_DTI
          = or3 (truth_of (eval a (COMPARE Le (VAR ''dti'') (LITERAL (VNum 43)))))
                (truth_of (eval a (COMPARE Ge (VAR ''compensating_factors'') (LITERAL (VNum 2)))))"
    by (simp only: constraint_truth_def default_ATR_QM_DTI_def formula_ATR_QM_DTI_def
        constraint.simps eval.simps truth_of_outcome_of)
  then have "constraint_truth a default_ATR_QM_DTI
          = or3 TrueV
              (truth_of (eval a (COMPARE Ge (VAR ''compensating_factors'') (LITERAL (VNum 2)))))"
    by (simp only: c truth_of.simps)
  then have t: "constraint_truth a default_ATR_QM_DTI \<noteq> FalseV"
    by (simp only: o not_False_eq_True)
  show ?thesis
    using c t ATR_not_violated [OF t] by simp
qed


theorem absent_dti_is_unknown_witness:
  "extract_text (\<lambda>ty pat text. None) ''Your loan is approved'' (extractors default_ontology) ''dti''
     = None \<and>
   constraint_truth
     (extract_text (\<lambda>ty pat text. None) ''Your loan is approved'' (extractors default_ontology))
     default_ATR_QM_DTI = UnknownV \<and>
   ''ATR_QM_DTI'' \<notin> set (map violated_id (violations
      (verify (\<lambda>ty pat text. None) 0 5 ''Your loan is approved'' default_ontology))) \<and>
   (\<exists>rest. proof_trace
      (verify (\<lambda>ty pat text. None) 0 5 ''Your loan is approved'' default_ontology) =
         \<lparr>trace_constraint_id = ''ATR_QM_DTI'', truth_value = UnknownV,
          variables_used = [''dti'', ''compensating_factors''],
          missing_variables = [''dti'', ''compensating_factors'']\<rparr> # rest) \<and>
   violation_of [''has_guarantee'' \<mapsto> VBool True, ''has_approval'' \<mapsto> VBool True]
       default_UDAAP_NO_GUARANTEES
     \<in> set (violations
         (evaluate [''has_guarantee'' \<mapsto> VBool True, ''has_approval'' \<mapsto> VBool True]
            [default_UDAAP_NO_GUARANTEES])) \<and>
   (\<exists>c. c \<in> set [default_UDAAP_NO_GUARANTEES] \<and>
      violation_of [''has_guarantee'' \<mapsto> VBool True, ''has_approval'' \<mapsto> VBool True]
          default_UDAAP_NO_GUARANTEES
        = violation_of [''has_guarantee'' \<mapsto> VBool True, ''has_approval'' \<mapsto> VBool True] c \<and>
      constraint_truth [''has_guarantee'' \<mapsto> VBool True, ''has_approval'' \<mapsto> VBool True] c
        = FalseV)"
proof -
  let ?mp = "\<lambda>(ty::string) (pat::string) (text::string). (None :: val option)"
  let ?a = "[''has_guarantee'' \<mapsto> VBool True, ''has_approval'' \<mapsto> VBool True]"
  have d: "extract_text ?mp ''Your loan is approved'' (extractors default_ontology) ''dti'' = None"
    by (simp add: extract_text_def default_ontology_def default_rules_def)
  have u: "constraint_truth ?a default_UDAAP_NO_GUARANTEES = FalseV"
    by (simp add: constraint_truth_def default_UDAAP_NO_GUARANTEES_def
        formula_UDAAP_NO_GUARANTEES_def)
  have m: "violation_of ?a default_UDAAP_NO_GUARANTEES
             \<in> set (violations (evaluate ?a [default_UDAAP_NO_GUARANTEES]))"
    using u by (simp add: evaluate_def)
  from absent_dti_is_unknown
         [where mp = "?mp" and llm_output = "''Your loan is approved''" and s = 0 and f = 5
            and v = "violation_of ?a default_UDAAP_NO_GUARANTEES" and a = "?a"
            and cs = "[default_UDAAP_NO_GUARANTEES]"] d m
  show ?thesis by blast
qed

theorem dti_43_satisfies_witness:
  "[''dti'' \<mapsto> VNum 43] ''dti'' = Some (VNum 43) \<and>
   eval [''dti'' \<mapsto> VNum 43] (COMPARE Le (VAR ''dti'') (LITERAL (VNum 43))) = Known (VBool True) \<and>
   constraint_truth [''dti'' \<mapsto> VNum 43] default_ATR_QM_DTI \<noteq> FalseV \<and>
   ''ATR_QM_DTI'' \<notin> set (map violated_id
      (violations (evaluate [''dti'' \<mapsto> VNum 43] (constraints default_ontology))))"
proof -
  have d: "[''dti'' \<mapsto> VNum 43] ''dti'' = Some (VNum 43)"
    by simp
  from dti_43_satisfies [of "[''dti'' \<mapsto> VNum 43]"] d show ?thesis by blast
qed

end
